theory Spec2Isabelle
  imports Main
begin

section \<open>The objects the controller works on\<close>

text \<open>
  The development embeds \<^verbatim>\<open>src/application.cpp\<close>, the controller
  \<^verbatim>\<open>Qtilities::Application\<close> of the tray widget. The controller holds two
  pointers, \<^verbatim>\<open>engine_\<close> and \<^verbatim>\<open>channel_\<close> (here \<open>m_engine\<close> and
  \<open>m_channel\<close>: a name cannot end in an underscore), into objects that the audio
  back ends own. Objects are kept in two stores, one for engines and one for devices; a
  pointer is an index into its store and a null pointer is \<open>None\<close>. Nothing in this file
  deletes an engine or a device, so a store only grows.
\<close>

datatype backend = Alsa | PulseAudio

record device =
  dev_class :: backend
  description :: string
  volume :: int
  mute :: bool

record engine =
  engine_id :: int
  eng_class :: backend
  sinks :: "nat list"

text \<open>The accessors of \<^verbatim>\<open>settings_\<close> that the controller reads or writes.\<close>

record settings =
  engineId :: int
  channelId :: int
  isNormalized :: bool
  pageStep :: int
  singleStep :: int
  useAutostart :: bool
  muteOnMiddleClick :: bool
  mixerCommand :: string

text \<open>\<^verbatim>\<open>QSystemTrayIcon::ActivationReason\<close>.\<close>

datatype ActivationReason = Unknown | Context | DoubleClick | Trigger | MiddleClick

text \<open>
  The three \<^verbatim>\<open>connect\<close> statements whose sender is an audio object. Each fixes
  the signal and the slot, and the receiver is always the controller, so a connection is
  known by its kind and its sender:
  \<^item> \<open>Device_muteChanged d\<close>: \<^verbatim>\<open>muteChanged\<close> of device \<open>d\<close> to the lambda of line 237;
  \<^item> \<open>Device_volumeChanged d\<close>: \<^verbatim>\<open>volumeChanged\<close> of device \<open>d\<close> to the lambda of line 241;
  \<^item> \<open>Engine_sinkListChanged e\<close>: \<^verbatim>\<open>sinkListChanged\<close> of engine \<open>e\<close> to
    \<^verbatim>\<open>onAudioDeviceListChanged\<close>.
  Qt keeps a connection for every \<^verbatim>\<open>connect\<close> call, also a repeated one, and
  runs the slots in the order of connection: the connections are a list.
\<close>

datatype connection =
    Device_muteChanged nat
  | Device_volumeChanged nat
  | Engine_sinkListChanged nat

text \<open>
  Every call the controller makes on a collaborator (a device, an engine, the tray icon,
  the popup menu, the preferences dialog, the settings, the autostart file), in the order
  it makes them.
\<close>

datatype effect =
    Device_setVolume nat int
  | Device_setMute nat bool
  | Device_toggleMute nat
  | Engine_new nat backend
  | Engine_setNormalized nat bool
  | AlsaEngine_updateDevice nat nat
  | Connect connection
  | Disconnect_device nat
  | Disconnect connection
  | TrayIcon_setIcon string
  | MenuVolume_show
  | MenuVolume_adjustSize
  | MenuVolume_popUp
  | MenuVolume_setVolume int
  | MenuVolume_setMute bool
  | MenuVolume_setPageStep int
  | MenuVolume_setSingleStep int
  | DialogPrefs_loadSettings
  | DialogPrefs_saveSettings
  | DialogPrefs_setDeviceList "string list"
  | Action_setChecked bool
  | Settings_setUseAutostart bool
  | Settings_save settings
  | createAutostartFile
  | deleteAutostartFile

text \<open>
  What the file takes from outside: the two build flags, the enumerators of
  \<^verbatim>\<open>EngineId\<close>, the bodies of the virtual methods of \<^verbatim>\<open>AudioDevice\<close>
  (each as the change it makes to the device it is called on) and what
  \<^verbatim>\<open>DialogPrefs::saveSettings\<close> writes into the settings. All of them are
  parameters: every theorem below holds for any choice.
\<close>

record config =
  USE_ALSA :: bool
  USE_PULSEAUDIO :: bool
  EngineId_Alsa :: int
  EngineId_PulseAudio :: int
  setVolume :: "int \<Rightarrow> device \<Rightarrow> device"
  setMute :: "bool \<Rightarrow> device \<Rightarrow> device"
  toggleMute :: "device \<Rightarrow> device"
  saveSettings :: "settings \<Rightarrow> settings"

text \<open>
  A null pointer dereferenced, and \<^verbatim>\<open>QList::at\<close> called with an index that is
  not in the list: both end the run.
\<close>

datatype error = NullDeref | IndexOutOfRange

record app =
  m_engine :: "nat option"
  m_channel :: "nat option"
  m_settings :: settings
  actAutoStart_checked :: bool
  engines :: "engine list"
  devices :: "device list"
  connections :: "connection list"
  trace :: "effect list"

section \<open>The controller\<close>

definition perform :: "effect \<Rightarrow> app \<Rightarrow> app" where
  "perform x s = s\<lparr>trace := trace s @ [x]\<rparr>"

definition on_device :: "nat \<Rightarrow> (device \<Rightarrow> device) \<Rightarrow> app \<Rightarrow> app" where
  "on_device d f s = s\<lparr>devices := (devices s)[d := f (devices s ! d)]\<rparr>"

definition connect :: "connection \<Rightarrow> app \<Rightarrow> app" where
  "connect c s = perform (Connect c) (s\<lparr>connections := connections s @ [c]\<rparr>)"

text \<open>\<^verbatim>\<open>disconnect(channel_, nullptr, this, nullptr)\<close>: every signal of the device.\<close>

definition disconnect_device :: "nat \<Rightarrow> app \<Rightarrow> app" where
  "disconnect_device d s =
     perform (Disconnect_device d)
       (s\<lparr>connections :=
            filter (\<lambda>c. c \<noteq> Device_muteChanged d \<and> c \<noteq> Device_volumeChanged d) (connections s)\<rparr>)"

definition disconnect :: "connection \<Rightarrow> app \<Rightarrow> app" where
  "disconnect c s =
     perform (Disconnect c) (s\<lparr>connections := filter (\<lambda>x. x \<noteq> c) (connections s)\<rparr>)"

text \<open>Lines 292 to 305.\<close>

definition iconName :: "device \<Rightarrow> string" where
  "iconName dev =
     (if volume dev \<le> 0 \<or> mute dev then ''audio-volume-muted''
      else if volume dev \<le> 33 then ''audio-volume-low''
      else if volume dev \<le> 66 then ''audio-volume-medium''
      else ''audio-volume-high'')"

definition updateTrayIcon :: "app \<Rightarrow> error + app" where
  "updateTrayIcon s =
     (case m_channel s of
        None \<Rightarrow> Inl NullDeref
      | Some d \<Rightarrow> Inr (perform (TrayIcon_setIcon (iconName (devices s ! d))) s))"

text \<open>The lambda connected to \<^verbatim>\<open>MenuVolume::sigMuteToggled\<close>, lines 88 to 94.\<close>

definition sigMuteToggled_lambda :: "config \<Rightarrow> bool \<Rightarrow> app \<Rightarrow> error + app" where
  "sigMuteToggled_lambda cfg muted s =
     (case m_channel s of
        None \<Rightarrow> Inr s
      | Some d \<Rightarrow>
          updateTrayIcon (on_device d (setMute cfg muted) (perform (Device_setMute d muted) s)))"

text \<open>The lambda connected to \<^verbatim>\<open>MenuVolume::sigVolumeChanged\<close>, lines 95 to 101.\<close>

definition sigVolumeChanged_lambda :: "config \<Rightarrow> int \<Rightarrow> app \<Rightarrow> error + app" where
  "sigVolumeChanged_lambda cfg vol s =
     (case m_channel s of
        None \<Rightarrow> Inr s
      | Some d \<Rightarrow>
          updateTrayIcon (on_device d (setVolume cfg vol) (perform (Device_setVolume d vol) s)))"

text \<open>
  The lambda connected to \<^verbatim>\<open>DialogPrefs::sigPrefsChanged\<close>, lines 74 to 85. With
  \<^verbatim>\<open>USE_ALSA\<close> the engine is dereferenced without a test. The two
  \<^verbatim>\<open>qobject_cast\<close>s succeed on a non-null pointer to an object of the ALSA class.
\<close>

definition sigPrefsChanged_lambda :: "config \<Rightarrow> app \<Rightarrow> error + app" where
  "sigPrefsChanged_lambda cfg s =
     (let menu = (\<lambda>t. perform (MenuVolume_setSingleStep (singleStep (m_settings t)))
                        (perform (MenuVolume_setPageStep (pageStep (m_settings t))) t))
      in if USE_ALSA cfg then
           (case m_engine s of
              None \<Rightarrow> Inl NullDeref
            | Some e \<Rightarrow>
                (let s1 = perform (Engine_setNormalized e (isNormalized (m_settings s))) s
                 in case m_channel s1 of
                      None \<Rightarrow> Inr (menu s1)
                    | Some d \<Rightarrow>
                        if eng_class (engines s1 ! e) = Alsa \<and> dev_class (devices s1 ! d) = Alsa
                        then Inr (menu (perform (AlsaEngine_updateDevice e d) s1))
                        else Inr (menu s1)))
         else Inr (menu s))"

text \<open>
  \<^verbatim>\<open>onAudioEngineChanged\<close>, lines 190 to 225, in its two parts. The first part is
  the block under \<^verbatim>\<open>if (engine_)\<close> once the ids are known to differ.
\<close>

definition release :: "app \<Rightarrow> app" where
  "release s =
     (case m_engine s of
        None \<Rightarrow> s
      | Some e \<Rightarrow>
          disconnect (Engine_sinkListChanged e)
            (case m_channel s of
               None \<Rightarrow> s
             | Some d \<Rightarrow> (disconnect_device d s)\<lparr>m_channel := None\<rparr>))"

text \<open>
  \<^verbatim>\<open>new AlsaEngine(this)\<close> and \<^verbatim>\<open>new PulseAudioEngine(this)\<close>: a new engine
  object, with a new device object for each sink that the back end finds (\<open>found\<close>).
  Its \<^verbatim>\<open>id()\<close> is the enumerator of its class. The result is the pointer.
\<close>

definition new_engine :: "int \<Rightarrow> backend \<Rightarrow> device list \<Rightarrow> app \<Rightarrow> nat \<times> app" where
  "new_engine i b found s =
     (let e = length (engines s); n = length (devices s)
      in (e, perform (Engine_new e b)
               (s\<lparr>engines := engines s @ [\<lparr>engine_id = i, eng_class = b, sinks = [n ..< n + length found]\<rparr>],
                  devices := devices s @ found\<rparr>)))"

text \<open>
  The part from the \<^verbatim>\<open>switch\<close> on, lines 203 to 224: \<open>started\<close> is the
  assignment to \<^verbatim>\<open>engine_\<close> in a \<^verbatim>\<open>case\<close> and what follows the
  \<^verbatim>\<open>switch\<close>. A \<^verbatim>\<open>case\<close> is compiled only under its build flag.
\<close>

definition started :: "nat \<times> app \<Rightarrow> app" where
  "started p =
     (case p of (e, t) \<Rightarrow>
        connect (Engine_sinkListChanged e)
          (perform (Engine_setNormalized e (isNormalized (m_settings t)))
             (t\<lparr>m_engine := Some e\<rparr>)))"

definition install :: "config \<Rightarrow> device list \<Rightarrow> int \<Rightarrow> app \<Rightarrow> app" where
  "install cfg found i s =
     (if USE_ALSA cfg \<and> i = EngineId_Alsa cfg
        then started (new_engine (EngineId_Alsa cfg) Alsa found s)
      else if USE_PULSEAUDIO cfg \<and> i = EngineId_PulseAudio cfg
        then started (new_engine (EngineId_PulseAudio cfg) PulseAudio found s)
      else s\<lparr>m_engine := None\<rparr>)"

definition onAudioEngineChanged :: "config \<Rightarrow> device list \<Rightarrow> int \<Rightarrow> app \<Rightarrow> app" where
  "onAudioEngineChanged cfg found i s =
     (case m_engine s of
        None \<Rightarrow> install cfg found i s
      | Some e \<Rightarrow>
          if engine_id (engines s ! e) = i then s
          else install cfg found i (release s))"

text \<open>\<^verbatim>\<open>onAudioDeviceChanged\<close>, lines 227 to 245.\<close>

definition onAudioDeviceChanged :: "int \<Rightarrow> app \<Rightarrow> error + app" where
  "onAudioDeviceChanged deviceId s =
     (case m_engine s of
        None \<Rightarrow> Inr s
      | Some e \<Rightarrow>
          (let list = sinks (engines s ! e)
           in if int (length list) \<le> 0 then Inr s
              else
                (let i = (if deviceId < 0 then 0 else deviceId)
                 in if i < int (length list)
                    then
                      (let d = list ! nat i
                       in Inr (connect (Device_volumeChanged d)
                                 (connect (Device_muteChanged d) (s\<lparr>m_channel := Some d\<rparr>))))
                    else Inl IndexOutOfRange)))"

text \<open>The two lambdas connected there, lines 237 to 244.\<close>

definition muteChanged_lambda :: "bool \<Rightarrow> app \<Rightarrow> error + app" where
  "muteChanged_lambda muted s = updateTrayIcon (perform (MenuVolume_setMute muted) s)"

definition volumeChanged_lambda :: "int \<Rightarrow> app \<Rightarrow> error + app" where
  "volumeChanged_lambda vol s = updateTrayIcon (perform (MenuVolume_setVolume vol) s)"

text \<open>\<^verbatim>\<open>onAudioDeviceListChanged\<close>, lines 247 to 256.\<close>

definition onAudioDeviceListChanged :: "app \<Rightarrow> app" where
  "onAudioDeviceListChanged s =
     (case m_engine s of
        None \<Rightarrow> s
      | Some e \<Rightarrow>
          perform (DialogPrefs_setDeviceList
                     (map (\<lambda>d. description (devices s ! d)) (sinks (engines s ! e)))) s)"

text \<open>\<^verbatim>\<open>onAboutToQuit\<close>, lines 258 to 266.\<close>

definition onAboutToQuit :: "config \<Rightarrow> app \<Rightarrow> app" where
  "onAboutToQuit cfg s =
     (let s1 = perform DialogPrefs_saveSettings (s\<lparr>m_settings := saveSettings cfg (m_settings s)\<rparr>);
          s2 = perform (Settings_setUseAutostart (actAutoStart_checked s1))
                 (s1\<lparr>m_settings := (m_settings s1)\<lparr>useAutostart := actAutoStart_checked s1\<rparr>\<rparr>);
          s3 = (if useAutostart (m_settings s2) then perform createAutostartFile s2
                else perform deleteAutostartFile s2)
      in perform (Settings_save (m_settings s3)) s3)"

text \<open>\<^verbatim>\<open>onTrayIconActivated\<close>, lines 268 to 279.\<close>

definition onTrayIconActivated :: "config \<Rightarrow> ActivationReason \<Rightarrow> app \<Rightarrow> app" where
  "onTrayIconActivated cfg reason s =
     (if reason = Trigger \<or> reason = DoubleClick
      then perform MenuVolume_popUp (perform MenuVolume_adjustSize (perform MenuVolume_show s))
      else
        (case m_channel s of
           None \<Rightarrow> s
         | Some d \<Rightarrow>
             if muteOnMiddleClick (m_settings s) \<and> reason = MiddleClick
             then on_device d (toggleMute cfg) (perform (Device_toggleMute d) s)
             else s))"

text \<open>
  The audio part of \<^verbatim>\<open>initUi\<close>, lines 151 to 166; \<open>loaded\<close> is what
  \<^verbatim>\<open>settings_.load()\<close> reads. The rest of \<^verbatim>\<open>initUi\<close> builds menus and
  dialogs and touches neither pointer.
\<close>

definition initUi :: "config \<Rightarrow> device list \<Rightarrow> settings \<Rightarrow> app \<Rightarrow> error + app" where
  "initUi cfg found loaded s =
     (let s0 = perform DialogPrefs_loadSettings (s\<lparr>m_settings := loaded\<rparr>);
          s1 = onAudioEngineChanged cfg found (engineId (m_settings s0)) s0
      in case onAudioDeviceChanged (channelId (m_settings s1)) s1 of
           Inl x \<Rightarrow> Inl x
         | Inr s2 \<Rightarrow>
             (case updateTrayIcon (onAudioDeviceListChanged s2) of
                Inl x \<Rightarrow> Inl x
              | Inr s3 \<Rightarrow>
                  (let s4 = (case m_channel s3 of
                               None \<Rightarrow> s3
                             | Some d \<Rightarrow> perform (MenuVolume_setVolume (volume (devices s3 ! d))) s3)
                   in Inr (perform (Action_setChecked (useAutostart (m_settings s4)))
                             (s4\<lparr>actAutoStart_checked := useAutostart (m_settings s4)\<rparr>)))))"

text \<open>
  The constructor, lines 47 to 103: both pointers start null, then \<^verbatim>\<open>initUi\<close>
  runs; the \<^verbatim>\<open>connect\<close> calls that follow it wire the events of \<open>event\<close> below.
\<close>

definition Application :: "config \<Rightarrow> device list \<Rightarrow> settings \<Rightarrow> error + app" where
  "Application cfg found loaded =
     initUi cfg found loaded
       \<lparr>m_engine = None, m_channel = None, m_settings = loaded, actAutoStart_checked = False,
        engines = [], devices = [], connections = [], trace = []\<rparr>"

section \<open>Events\<close>

text \<open>
  A signal of an audio object runs the slot of each of its connections, in the order of
  connection, until one of them fails.
\<close>

fun deliver :: "connection \<Rightarrow> (app \<Rightarrow> error + app) \<Rightarrow> connection list \<Rightarrow> app \<Rightarrow> error + app" where
  "deliver c slot [] s = Inr s"
| "deliver c slot (x # xs) s =
     (if x = c
      then (case slot s of Inl e \<Rightarrow> Inl e | Inr s' \<Rightarrow> deliver c slot xs s')
      else deliver c slot xs s)"

text \<open>
  The signals that reach the controller: those of the preferences dialog, of the popup
  menu and of the tray icon, connected once in the constructor, and those of the audio
  objects. \<open>sigEngineChanged\<close> carries, next to the id, the sinks that a newly made
  engine would find.

  A call on a collaborator returns before the controller goes on: a signal that the
  collaborator sends in answer is an event of its own, handled after the slot that made
  the call. \<^verbatim>\<open>runMixer\<close> and the actions of the context menu start a process or
  show a dialog; they read and write nothing of what is modelled here and are left out.
\<close>

datatype event =
    sigEngineChanged int "device list"
  | sigChannelChanged int
  | sigPrefsChanged
  | sigMuteToggled bool
  | sigVolumeChanged int
  | activated ActivationReason
  | aboutToQuit
  | muteChanged nat bool
  | volumeChanged nat int
  | sinkListChanged nat

fun handle :: "config \<Rightarrow> event \<Rightarrow> app \<Rightarrow> error + app" where
  "handle cfg (sigEngineChanged i found) s = Inr (onAudioEngineChanged cfg found i s)"
| "handle cfg (sigChannelChanged i) s = onAudioDeviceChanged i s"
| "handle cfg sigPrefsChanged s = sigPrefsChanged_lambda cfg s"
| "handle cfg (sigMuteToggled b) s = sigMuteToggled_lambda cfg b s"
| "handle cfg (sigVolumeChanged v) s = sigVolumeChanged_lambda cfg v s"
| "handle cfg (activated r) s = Inr (onTrayIconActivated cfg r s)"
| "handle cfg aboutToQuit s = Inr (onAboutToQuit cfg s)"
| "handle cfg (muteChanged d b) s =
     deliver (Device_muteChanged d) (muteChanged_lambda b) (connections s) s"
| "handle cfg (volumeChanged d v) s =
     deliver (Device_volumeChanged d) (volumeChanged_lambda v) (connections s) s"
| "handle cfg (sinkListChanged e) s =
     deliver (Engine_sinkListChanged e) (\<lambda>t. Inr (onAudioDeviceListChanged t)) (connections s) s"

text \<open>Events handled one after the other, up to the first that fails.\<close>

fun handle_all :: "config \<Rightarrow> event list \<Rightarrow> app \<Rightarrow> error + app" where
  "handle_all cfg [] s = Inr s"
| "handle_all cfg (ev # evs) s =
     (case handle cfg ev s of Inl x \<Rightarrow> Inl x | Inr t \<Rightarrow> handle_all cfg evs t)"

text \<open>
  The states the running program can be in: the one the constructor leaves, then any
  handled event that returns, and any change made from outside to what the controller
  does not own (the audio objects, the stored settings, the autostart action); no engine
  comes or goes that way, and no device goes.
\<close>

inductive reachable :: "config \<Rightarrow> app \<Rightarrow> bool" for cfg :: config where
  constructed: "Application cfg found loaded = Inr s \<Longrightarrow> reachable cfg s"
| handled: "reachable cfg s \<Longrightarrow> handle cfg ev s = Inr s' \<Longrightarrow> reachable cfg s'"
| outside: "reachable cfg s \<Longrightarrow> length es = length (engines s) \<Longrightarrow> length (devices s) \<le> length ds \<Longrightarrow>
     reachable cfg (s\<lparr>m_settings := st, actAutoStart_checked := b, engines := es, devices := ds\<rparr>)"

section \<open>Wiring\<close>

text \<open>
  What holds of the two pointers and of the connections whenever the controller is idle:
  a channel is held only with an engine; the engine held is an object that exists and is
  the one engine whose \<^verbatim>\<open>sinkListChanged\<close> is connected; both signals of the
  channel held are connected.
\<close>

fun is_engine_connection :: "connection \<Rightarrow> bool" where
  "is_engine_connection (Engine_sinkListChanged e) = True"
| "is_engine_connection (Device_muteChanged d) = False"
| "is_engine_connection (Device_volumeChanged d) = False"

definition wired :: "app \<Rightarrow> bool" where
  "wired s =
     ((case m_engine s of
         None \<Rightarrow> m_channel s = None \<and> filter is_engine_connection (connections s) = []
       | Some e \<Rightarrow>
           e < length (engines s) \<and>
           filter is_engine_connection (connections s) = [Engine_sinkListChanged e]) \<and>
      (case m_channel s of
         None \<Rightarrow> True
       | Some d \<Rightarrow>
           Device_muteChanged d \<in> set (connections s) \<and>
           Device_volumeChanged d \<in> set (connections s)))"

definition same_wiring :: "app \<Rightarrow> app \<Rightarrow> bool" where
  "same_wiring s t =
     (m_engine t = m_engine s \<and> m_channel t = m_channel s \<and>
      connections t = connections s \<and> length (engines t) = length (engines s))"

section \<open>A run\<close>

text \<open>
  A build with both back ends, devices whose setters store what they are given, and a
  machine where ALSA finds two sinks. \<open>running\<close> is the state the constructor leaves
  there, \<open>unplugged\<close> the state after the preferences dialog then asks for an engine id
  that no \<^verbatim>\<open>case\<close> handles, \<open>switched\<close> the state after it asks for PulseAudio
  instead.
\<close>

definition cfg0 :: config where
  "cfg0 = \<lparr>USE_ALSA = True, USE_PULSEAUDIO = True, EngineId_Alsa = 0, EngineId_PulseAudio = 1,
      setVolume = (\<lambda>v d. d\<lparr>volume := v\<rparr>), setMute = (\<lambda>m d. d\<lparr>mute := m\<rparr>),
      toggleMute = (\<lambda>d. d\<lparr>mute := \<not> mute d\<rparr>), saveSettings = (\<lambda>st. st)\<rparr>"

definition speakers :: device where
  "speakers = \<lparr>dev_class = Alsa, description = ''Speakers'', volume = 50, mute = False\<rparr>"

definition headphones :: device where
  "headphones = \<lparr>dev_class = Alsa, description = ''Headphones'', volume = 20, mute = False\<rparr>"

definition loaded0 :: settings where
  "loaded0 = \<lparr>engineId = 0, channelId = 1, isNormalized = False, pageStep = 5, singleStep = 1,
      useAutostart = True, muteOnMiddleClick = True, mixerCommand = ''pavucontrol''\<rparr>"


definition running :: app where
  "running = \<lparr>m_engine = Some 0, m_channel = Some 1, m_settings = loaded0,
      actAutoStart_checked = True,
      engines = [\<lparr>engine_id = 0, eng_class = Alsa, sinks = [0, 1]\<rparr>],
      devices = [speakers, headphones],
      connections = [Engine_sinkListChanged 0, Device_muteChanged 1, Device_volumeChanged 1],
      trace = [DialogPrefs_loadSettings, Engine_new 0 Alsa, Engine_setNormalized 0 False,
        Connect (Engine_sinkListChanged 0), Connect (Device_muteChanged 1),
        Connect (Device_volumeChanged 1),
        DialogPrefs_setDeviceList [''Speakers'', ''Headphones''],
        TrayIcon_setIcon ''audio-volume-low'', MenuVolume_setVolume 20,
        Action_setChecked True]\<rparr>"



definition unplugged :: app where
  "unplugged = running\<lparr>m_engine := None, m_channel := None, connections := [],
      trace := trace running @ [Disconnect_device 1, Disconnect (Engine_sinkListChanged 0)]\<rparr>"

definition switched :: app where
  "switched = \<lparr>m_engine = Some 1, m_channel = None, m_settings = loaded0,
      actAutoStart_checked = True,
      engines = [\<lparr>engine_id = 0, eng_class = Alsa, sinks = [0, 1]\<rparr>,
                 \<lparr>engine_id = 1, eng_class = PulseAudio, sinks = [2]\<rparr>],
      devices = [speakers, headphones, speakers],
      connections = [Engine_sinkListChanged 1],
      trace = trace running @
        [Disconnect_device 1, Disconnect (Engine_sinkListChanged 0), Engine_new 1 PulseAudio,
         Engine_setNormalized 1 False, Connect (Engine_sinkListChanged 1)]\<rparr>"

section \<open>The run, checked\<close>

lemmas controller_defs = perform_def on_device_def connect_def disconnect_device_def
  disconnect_def iconName_def updateTrayIcon_def sigMuteToggled_lambda_def
  sigVolumeChanged_lambda_def sigPrefsChanged_lambda_def release_def new_engine_def
  started_def install_def onAudioEngineChanged_def onAudioDeviceChanged_def
  muteChanged_lambda_def volumeChanged_lambda_def onAudioDeviceListChanged_def
  onAboutToQuit_def onTrayIconActivated_def initUi_def Application_def

lemmas run_defs = cfg0_def speakers_def headphones_def loaded0_def running_def

lemma Application_running: "Application cfg0 [speakers, headphones] loaded0 = Inr running"
  by (simp add: controller_defs run_defs Let_def)

lemma reachable_running: "reachable cfg0 running"
  using Application_running by (rule reachable.constructed)

lemma handle_unplugged: "handle cfg0 (sigEngineChanged 7 []) running = Inr unplugged"
  by (simp add: onAudioEngineChanged_def release_def install_def disconnect_def
      disconnect_device_def perform_def unplugged_def running_def cfg0_def)

lemma reachable_unplugged: "reachable cfg0 unplugged"
  using reachable_running handle_unplugged by (rule reachable.handled)

section \<open>The wiring is kept\<close>

lemma same_wiring_refl: "same_wiring s s"
  by (simp add: same_wiring_def)

lemma same_wiring_trans: "same_wiring s t \<Longrightarrow> same_wiring t u \<Longrightarrow> same_wiring s u"
  by (simp add: same_wiring_def)

lemma wired_same_wiring: "same_wiring s t \<Longrightarrow> wired s \<Longrightarrow> wired t"
  by (auto simp add: same_wiring_def wired_def split: option.splits)

lemma same_wiring_updateTrayIcon: "updateTrayIcon s = Inr t \<Longrightarrow> same_wiring s t"
  by (auto simp add: updateTrayIcon_def same_wiring_def perform_def split: option.splits)

lemma same_wiring_deliver:
  assumes "\<And>a b. slot a = Inr b \<Longrightarrow> same_wiring a b"
  shows "deliver c slot cs s = Inr t \<Longrightarrow> same_wiring s t"
proof (induction cs arbitrary: s)
  case Nil
  then show ?case by (simp add: same_wiring_refl)
next
  case (Cons x xs)
  show ?case
  proof (cases "x = c")
    case False
    with Cons show ?thesis by simp
  next
    case True
    with Cons.prems obtain u where u: "slot s = Inr u" and rest: "deliver c slot xs u = Inr t"
      by (auto split: sum.splits)
    from assms [OF u] Cons.IH [OF rest] show ?thesis by (rule same_wiring_trans)
  qed
qed

lemma only_engine_connection:
  assumes "filter is_engine_connection cs = [c]" "x \<in> set cs" "is_engine_connection x"
  shows "x = c"
proof -
  from assms(2,3) have "x \<in> set (filter is_engine_connection cs)" by simp
  with assms(1) show ?thesis by simp
qed

lemma released:
  assumes "wired s" "m_engine s = Some e"
  shows "m_channel (release s) = None"
    and "m_engine (release s) = Some e"
    and "filter is_engine_connection (connections (release s)) = []"
    and "length (engines (release s)) = length (engines s)"
  using assms
  by (auto simp add: release_def wired_def disconnect_def disconnect_device_def perform_def
      filter_empty_conv dest: only_engine_connection split: option.splits)

lemma wired_install:
  assumes "m_channel s = None" "filter is_engine_connection (connections s) = []"
  shows "wired (install cfg found i s)"
  using assms
  by (simp add: install_def started_def new_engine_def connect_def perform_def wired_def Let_def)

lemma wired_onAudioEngineChanged:
  assumes "wired s"
  shows "wired (onAudioEngineChanged cfg found i s)"
proof (cases "m_engine s")
  case None
  with assms have "m_channel s = None" "filter is_engine_connection (connections s) = []"
    by (simp_all add: wired_def)
  then have "wired (install cfg found i s)" by (rule wired_install)
  with None show ?thesis by (simp add: onAudioEngineChanged_def)
next
  case (Some e)
  show ?thesis
  proof (cases "engine_id (engines s ! e) = i")
    case True
    with Some assms show ?thesis by (simp add: onAudioEngineChanged_def)
  next
    case False
    from released(1,3) [OF assms Some] have "wired (install cfg found i (release s))"
      by (rule wired_install)
    with Some False show ?thesis by (simp add: onAudioEngineChanged_def)
  qed
qed

lemma wired_onAudioDeviceChanged:
  assumes "wired s" "onAudioDeviceChanged i s = Inr t"
  shows "wired t"
  using assms
  by (auto simp add: onAudioDeviceChanged_def wired_def connect_def perform_def Let_def
      split: option.splits if_splits)

lemma same_wiring_handle:
  assumes "handle cfg ev s = Inr t"
  shows "case ev of
           sigEngineChanged i found \<Rightarrow> True
         | sigChannelChanged i \<Rightarrow> True
         | _ \<Rightarrow> same_wiring s t"
proof (cases ev)
  case sigPrefsChanged
  with assms(1) show ?thesis
    by (auto simp add: sigPrefsChanged_lambda_def same_wiring_def perform_def Let_def
        split: if_splits option.splits)
next
  case (sigMuteToggled b)
  with assms(1) show ?thesis
    by (auto simp add: sigMuteToggled_lambda_def updateTrayIcon_def on_device_def
        same_wiring_def perform_def split: option.splits)
next
  case (sigVolumeChanged v)
  with assms(1) show ?thesis
    by (auto simp add: sigVolumeChanged_lambda_def updateTrayIcon_def on_device_def
        same_wiring_def perform_def split: option.splits)
next
  case (activated r)
  with assms(1) show ?thesis
    by (auto simp add: onTrayIconActivated_def on_device_def same_wiring_def perform_def
        split: option.splits if_splits)
next
  case aboutToQuit
  with assms(1) show ?thesis
    by (auto simp add: onAboutToQuit_def same_wiring_def perform_def Let_def)
next
  case (muteChanged d b)
  have "\<And>a b'. muteChanged_lambda b a = Inr b' \<Longrightarrow> same_wiring a b'"
    by (auto simp add: muteChanged_lambda_def updateTrayIcon_def same_wiring_def perform_def
        split: option.splits)
  with muteChanged assms(1) show ?thesis by (auto dest: same_wiring_deliver [rotated])
next
  case (volumeChanged d v)
  have "\<And>a b'. volumeChanged_lambda v a = Inr b' \<Longrightarrow> same_wiring a b'"
    by (auto simp add: volumeChanged_lambda_def updateTrayIcon_def same_wiring_def perform_def
        split: option.splits)
  with volumeChanged assms(1) show ?thesis by (auto dest: same_wiring_deliver [rotated])
next
  case (sinkListChanged e)
  have "\<And>a b'. Inr (onAudioDeviceListChanged a) = (Inr b' :: error + app) \<Longrightarrow> same_wiring a b'"
    by (auto simp add: onAudioDeviceListChanged_def same_wiring_def perform_def
        split: option.splits)
  with sinkListChanged assms(1) show ?thesis by (auto dest: same_wiring_deliver [rotated])
qed simp_all

lemma wired_handle:
  assumes "wired s" "handle cfg ev s = Inr t"
  shows "wired t"
proof (cases ev)
  case (sigEngineChanged i found)
  with assms show ?thesis by (auto simp add: wired_onAudioEngineChanged)
next
  case (sigChannelChanged i)
  with assms show ?thesis by (auto intro: wired_onAudioDeviceChanged)
qed (use assms same_wiring_handle [OF assms(2)] in \<open>auto intro: wired_same_wiring\<close>)

lemma wired_Application:
  assumes "Application cfg found loaded = Inr s"
  shows "wired s"
proof -
  let ?s0 = "perform DialogPrefs_loadSettings
    \<lparr>m_engine = None, m_channel = None, m_settings = loaded, actAutoStart_checked = False,
     engines = [], devices = [], connections = [], trace = []\<rparr>"
  let ?s1 = "onAudioEngineChanged cfg found (engineId loaded) ?s0"
  have "wired ?s0" by (simp add: wired_def perform_def)
  then have w1: "wired ?s1" by (rule wired_onAudioEngineChanged)
  from assms obtain s2 s3 where
    s2: "onAudioDeviceChanged (channelId (m_settings ?s1)) ?s1 = Inr s2" and
    s3: "updateTrayIcon (onAudioDeviceListChanged s2) = Inr s3" and
    s: "same_wiring s3 s"
    by (auto simp add: Application_def initUi_def Let_def perform_def same_wiring_def
        split: sum.splits option.splits)
  from w1 s2 have "wired s2" by (rule wired_onAudioDeviceChanged)
  moreover have "same_wiring s2 (onAudioDeviceListChanged s2)"
    by (simp add: onAudioDeviceListChanged_def same_wiring_def perform_def split: option.splits)
  ultimately have "wired (onAudioDeviceListChanged s2)" by (rule wired_same_wiring [rotated])
  with same_wiring_updateTrayIcon [OF s3] have "wired s3" by (rule wired_same_wiring)
  with s show ?thesis by (rule wired_same_wiring)
qed

lemma reachable_wired: "reachable cfg s \<Longrightarrow> wired s"
proof (induction rule: reachable.induct)
  case (constructed found loaded s)
  then show ?case by (rule wired_Application)
next
  case (handled s ev s')
  from handled.IH handled.hyps(2) show ?case by (rule wired_handle)
next
  case (outside s es ds st b)
  then show ?case by (auto simp add: wired_def split: option.splits)
qed

section \<open>Signals of the audio objects\<close>

lemma deliver_appends:
  assumes "\<And>ys. slot (s\<lparr>trace := ys\<rparr>) = Inr (s\<lparr>trace := ys @ xs\<rparr>)"
  shows "deliver c slot cs (s\<lparr>trace := ys\<rparr>) =
         Inr (s\<lparr>trace := ys @ concat (replicate (count_list cs c) xs)\<rparr>)"
proof (induction cs arbitrary: ys)
  case Nil
  show ?case by simp
next
  case (Cons x cs)
  show ?case
  proof (cases "x = c")
    case True
    then show ?thesis using assms [of ys] Cons.IH [of "ys @ xs"] by simp
  next
    case False
    then show ?thesis using Cons.IH [of ys] by simp
  qed
qed

lemma deliver_trace:
  assumes "\<And>ys. slot (s\<lparr>trace := ys\<rparr>) = Inr (s\<lparr>trace := ys @ xs\<rparr>)"
  shows "deliver c slot (connections s) s =
         Inr (s\<lparr>trace := trace s @ concat (replicate (count_list (connections s) c) xs)\<rparr>)"
  using deliver_appends [of slot s xs c "connections s" "trace s", OF assms] by simp

lemma count_engine_connection:
  "count_list cs (Engine_sinkListChanged e) =
   count_list (filter is_engine_connection cs) (Engine_sinkListChanged e)"
  by (induction cs) auto

lemma volumeChanged_lambda_trace:
  assumes "m_channel s = Some d"
  shows "volumeChanged_lambda v (s\<lparr>trace := ys\<rparr>) =
         Inr (s\<lparr>trace := ys @ [MenuVolume_setVolume v, TrayIcon_setIcon (iconName (devices s ! d))]\<rparr>)"
  using assms by (simp add: volumeChanged_lambda_def updateTrayIcon_def perform_def)

lemma muteChanged_lambda_trace:
  assumes "m_channel s = Some d"
  shows "muteChanged_lambda b (s\<lparr>trace := ys\<rparr>) =
         Inr (s\<lparr>trace := ys @ [MenuVolume_setMute b, TrayIcon_setIcon (iconName (devices s ! d))]\<rparr>)"
  using assms by (simp add: muteChanged_lambda_def updateTrayIcon_def perform_def)

lemma onAudioDeviceListChanged_trace:
  assumes "m_engine s = Some e"
  shows "Inr (onAudioDeviceListChanged (s\<lparr>trace := ys\<rparr>)) =
         (Inr (s\<lparr>trace := ys @ [DialogPrefs_setDeviceList
                  (map (\<lambda>d. description (devices s ! d)) (sinks (engines s ! e)))]\<rparr>) :: error + app)"
  using assms by (simp add: onAudioDeviceListChanged_def perform_def)

section \<open>Switching the engine\<close>

lemma release_channel:
  assumes "m_engine s = Some e"
  shows "m_engine (release s) = Some e"
    and "m_channel (release s) = None"
    and "trace (release s) =
           trace s @ (case m_channel s of None \<Rightarrow> [] | Some d \<Rightarrow> [Disconnect_device d]) @
           [Disconnect (Engine_sinkListChanged e)]"
    and "length (engines (release s)) = length (engines s)"
    and "m_settings (release s) = m_settings s"
    and "m_channel s = Some d \<Longrightarrow>
           Device_muteChanged d \<notin> set (connections (release s)) \<and>
           Device_volumeChanged d \<notin> set (connections (release s))"
  using assms
  by (auto simp add: release_def disconnect_def disconnect_device_def perform_def
      split: option.splits)

lemma install_channel: "m_channel (install cfg found i r) = m_channel r"
  by (simp add: install_def started_def new_engine_def connect_def perform_def Let_def)

lemma install_connections:
  "set (connections (install cfg found i r)) \<subseteq>
   insert (Engine_sinkListChanged (length (engines r))) (set (connections r))"
  by (auto simp add: install_def started_def new_engine_def connect_def perform_def Let_def)

lemma install_engine:
  "(m_engine (install cfg found i r) = None \<and> trace (install cfg found i r) = trace r) \<or>
   (m_engine (install cfg found i r) = Some (length (engines r)) \<and>
    (\<exists>b. trace (install cfg found i r) =
       trace r @ [Engine_new (length (engines r)) b,
                  Engine_setNormalized (length (engines r)) (isNormalized (m_settings r)),
                  Connect (Engine_sinkListChanged (length (engines r)))]))"
  by (simp add: install_def started_def new_engine_def connect_def perform_def Let_def)

section \<open>The claims\<close>

text \<open>
  C1. For every volume the popup menu delivers with \<^verbatim>\<open>sigVolumeChanged\<close>: with a
  channel held, the controller calls \<^verbatim>\<open>setVolume\<close> on that channel with that
  value and then sets the tray icon, read from the channel after the call; with no
  channel held the state is the same, so no call is made and the icon is not set.
\<close>

theorem sigVolumeChanged_sets_volume_then_icon:
  "(\<forall>d. m_channel s = Some d \<longrightarrow>
      handle cfg (sigVolumeChanged v) s =
        Inr (s\<lparr>devices := (devices s)[d := setVolume cfg v (devices s ! d)],
               trace := trace s @ [Device_setVolume d v,
                 TrayIcon_setIcon (iconName ((devices s)[d := setVolume cfg v (devices s ! d)] ! d))]\<rparr>)) \<and>
   (m_channel s = None \<longrightarrow> handle cfg (sigVolumeChanged v) s = Inr s)"
  by (simp add: sigVolumeChanged_lambda_def updateTrayIcon_def perform_def on_device_def)

theorem sigVolumeChanged_sets_volume_then_icon_witness:
  "handle cfg0 (sigVolumeChanged 80) running =
     Inr (running\<lparr>devices := [speakers, headphones\<lparr>volume := 80\<rparr>],
            trace := trace running @ [Device_setVolume 1 80, TrayIcon_setIcon ''audio-volume-high'']\<rparr>) \<and>
   handle cfg0 (sigVolumeChanged 80) unplugged = Inr unplugged"
  using sigVolumeChanged_sets_volume_then_icon [of running cfg0 80]
    sigVolumeChanged_sets_volume_then_icon [of unplugged cfg0 80]
  by (simp add: run_defs unplugged_def iconName_def)

text \<open>
  C2. At most one engine and one channel are held, each pointer being one or none, and
  in every state the program reaches a channel is held only with an engine. When an
  engine is held and a different id is asked for, \<^verbatim>\<open>onAudioEngineChanged\<close> is the
  \<open>release\<close> of the old engine followed by the \<open>install\<close> of the new one. After
  \<open>release\<close> the old engine is still held, the channel pointer is null, neither signal
  of the old channel is connected, and the calls added are the disconnects. After
  \<open>install\<close> the channel pointer is still null, the old channel is still not
  connected, and the engine held is none or a new object, made after the disconnects.
\<close>

theorem engine_switch_releases_channel:
  assumes "reachable cfg s"
  shows "(m_engine s = None \<longrightarrow> m_channel s = None) \<and>
         (\<forall>e. m_engine s = Some e \<and> engine_id (engines s ! e) \<noteq> i \<longrightarrow>
            handle cfg (sigEngineChanged i found) s = Inr (install cfg found i (release s)) \<and>
            m_engine (release s) = Some e \<and>
            m_channel (release s) = None \<and>
            trace (release s) =
              trace s @ (case m_channel s of None \<Rightarrow> [] | Some d \<Rightarrow> [Disconnect_device d]) @
              [Disconnect (Engine_sinkListChanged e)] \<and>
            m_channel (install cfg found i (release s)) = None \<and>
            m_engine (install cfg found i (release s)) \<noteq> Some e \<and>
            (\<forall>d. m_channel s = Some d \<longrightarrow>
               Device_muteChanged d \<notin> set (connections (release s)) \<and>
               Device_volumeChanged d \<notin> set (connections (release s)) \<and>
               Device_muteChanged d \<notin> set (connections (install cfg found i (release s))) \<and>
               Device_volumeChanged d \<notin> set (connections (install cfg found i (release s)))) \<and>
            ((m_engine (install cfg found i (release s)) = None \<and>
              trace (install cfg found i (release s)) = trace (release s)) \<or>
             (m_engine (install cfg found i (release s)) = Some (length (engines s)) \<and>
              (\<exists>b. trace (install cfg found i (release s)) =
                 trace (release s) @
                 [Engine_new (length (engines s)) b,
                  Engine_setNormalized (length (engines s)) (isNormalized (m_settings s)),
                  Connect (Engine_sinkListChanged (length (engines s)))]))))"
proof (intro conjI allI impI)
  from assms have w: "wired s" by (rule reachable_wired)
  {
    assume "m_engine s = None"
    with w show "m_channel s = None" by (simp add: wired_def)
  }
  fix e
  assume a: "m_engine s = Some e \<and> engine_id (engines s ! e) \<noteq> i"
  then have e: "m_engine s = Some e" and i: "engine_id (engines s ! e) \<noteq> i" by simp_all
  from w e have older: "e < length (engines s)" by (simp add: wired_def)
  note r = release_channel [OF e]
  from e i show "handle cfg (sigEngineChanged i found) s = Inr (install cfg found i (release s))"
    by (simp add: onAudioEngineChanged_def)
  show "m_engine (release s) = Some e" by (rule r(1))
  show "m_channel (release s) = None" by (rule r(2))
  show "trace (release s) =
          trace s @ (case m_channel s of None \<Rightarrow> [] | Some d \<Rightarrow> [Disconnect_device d]) @
          [Disconnect (Engine_sinkListChanged e)]" by (rule r(3))
  show "m_channel (install cfg found i (release s)) = None"
    by (simp add: install_channel r(2))
  from install_engine [of cfg found i "release s"] older
  show "m_engine (install cfg found i (release s)) \<noteq> Some e"
    by (auto simp add: r(4))
  from install_engine [of cfg found i "release s"]
  show "(m_engine (install cfg found i (release s)) = None \<and>
              trace (install cfg found i (release s)) = trace (release s)) \<or>
             (m_engine (install cfg found i (release s)) = Some (length (engines s)) \<and>
              (\<exists>b. trace (install cfg found i (release s)) =
                 trace (release s) @
                 [Engine_new (length (engines s)) b,
                  Engine_setNormalized (length (engines s)) (isNormalized (m_settings s)),
                  Connect (Engine_sinkListChanged (length (engines s)))]))"
    by (simp add: r(4,5))
  fix d
  assume d: "m_channel s = Some d"
  from r(6) [OF d] show "Device_muteChanged d \<notin> set (connections (release s))"
    and "Device_volumeChanged d \<notin> set (connections (release s))" by simp_all
  with install_connections [of cfg found i "release s"]
  show "Device_muteChanged d \<notin> set (connections (install cfg found i (release s)))"
    and "Device_volumeChanged d \<notin> set (connections (install cfg found i (release s)))"
    by auto
qed

theorem engine_switch_releases_channel_witness:
  "reachable cfg0 running \<and> m_engine running = Some 0 \<and> engine_id (engines running ! 0) \<noteq> 1 \<and>
   handle cfg0 (sigEngineChanged 1 [speakers]) running = Inr switched \<and>
   m_channel (release running) = None \<and> m_channel switched = None \<and>
   Device_volumeChanged 1 \<notin> set (connections switched)"
proof -
  have "install cfg0 [speakers] 1 (release running) = switched"
    by (simp add: install_def release_def started_def new_engine_def connect_def disconnect_def
        disconnect_device_def perform_def running_def switched_def cfg0_def loaded0_def)
  moreover have "m_engine running = Some 0" "engine_id (engines running ! 0) \<noteq> 1"
    "m_channel running = Some 1"
    by (simp_all add: running_def)
  ultimately show ?thesis
    using engine_switch_releases_channel [OF reachable_running, of 1 "[speakers]"]
      reachable_running
    by simp
qed

text \<open>
  C3. On an activation of the tray icon: \<^verbatim>\<open>Trigger\<close> and \<^verbatim>\<open>DoubleClick\<close>
  show the volume menu, adjust its size and pop it up; \<^verbatim>\<open>MiddleClick\<close> calls
  \<^verbatim>\<open>toggleMute\<close> on the channel when a channel is held and
  \<^verbatim>\<open>muteOnMiddleClick\<close> is set, and leaves the state as it is when either fails;
  the other reasons leave the state as it is.
\<close>

theorem onTrayIconActivated_by_reason:
  "(reason = Trigger \<or> reason = DoubleClick \<longrightarrow>
      handle cfg (activated reason) s =
        Inr (s\<lparr>trace := trace s @ [MenuVolume_show, MenuVolume_adjustSize, MenuVolume_popUp]\<rparr>)) \<and>
   (reason = MiddleClick \<longrightarrow>
      (\<forall>d. m_channel s = Some d \<and> muteOnMiddleClick (m_settings s) \<longrightarrow>
         handle cfg (activated reason) s =
           Inr (s\<lparr>devices := (devices s)[d := toggleMute cfg (devices s ! d)],
                  trace := trace s @ [Device_toggleMute d]\<rparr>)) \<and>
      (m_channel s = None \<or> \<not> muteOnMiddleClick (m_settings s) \<longrightarrow>
         handle cfg (activated reason) s = Inr s)) \<and>
   (reason = Unknown \<or> reason = Context \<longrightarrow> handle cfg (activated reason) s = Inr s)"
  by (auto simp add: onTrayIconActivated_def perform_def on_device_def split: option.splits)

theorem onTrayIconActivated_by_reason_witness:
  "handle cfg0 (activated Trigger) running =
     Inr (running\<lparr>trace := trace running @ [MenuVolume_show, MenuVolume_adjustSize, MenuVolume_popUp]\<rparr>) \<and>
   handle cfg0 (activated MiddleClick) running =
     Inr (running\<lparr>devices := [speakers, headphones\<lparr>mute := True\<rparr>],
            trace := trace running @ [Device_toggleMute 1]\<rparr>) \<and>
   handle cfg0 (activated MiddleClick) unplugged = Inr unplugged \<and>
   handle cfg0 (activated Context) running = Inr running"
  using onTrayIconActivated_by_reason [of Trigger cfg0 running]
    onTrayIconActivated_by_reason [of MiddleClick cfg0 running]
    onTrayIconActivated_by_reason [of MiddleClick cfg0 unplugged]
    onTrayIconActivated_by_reason [of Context cfg0 running]
  by (simp add: run_defs unplugged_def)

text \<open>
  C4. In every state the program reaches, \<^verbatim>\<open>sinkListChanged\<close> of the engine held
  runs \<^verbatim>\<open>onAudioDeviceListChanged\<close> once: the device list of the preferences
  dialog is set to the descriptions of that engine's sinks, in the order of
  \<^verbatim>\<open>sinks()\<close>, and nothing else changes. With no engine held the slot leaves the
  state as it is, and so does the signal of any engine.
\<close>

theorem sinkListChanged_rebuilds_device_list:
  assumes "reachable cfg s"
  shows "(\<forall>e. m_engine s = Some e \<longrightarrow>
           handle cfg (sinkListChanged e) s =
             Inr (s\<lparr>trace := trace s @
                    [DialogPrefs_setDeviceList
                       (map (\<lambda>d. description (devices s ! d)) (sinks (engines s ! e)))]\<rparr>)) \<and>
         (m_engine s = None \<longrightarrow>
            onAudioDeviceListChanged s = s \<and> (\<forall>e. handle cfg (sinkListChanged e) s = Inr s))"
proof (intro conjI allI impI)
  fix e
  assume e: "m_engine s = Some e"
  from assms have "wired s" by (rule reachable_wired)
  with e have "count_list (connections s) (Engine_sinkListChanged e) = 1"
    by (simp add: wired_def count_engine_connection [of "connections s"])
  with deliver_trace [of "\<lambda>t. Inr (onAudioDeviceListChanged t)" s,
      OF onAudioDeviceListChanged_trace [OF e]]
  show "handle cfg (sinkListChanged e) s =
          Inr (s\<lparr>trace := trace s @
                 [DialogPrefs_setDeviceList
                    (map (\<lambda>d. description (devices s ! d)) (sinks (engines s ! e)))]\<rparr>)"
    by simp
next
  assume "m_engine s = None"
  then show "onAudioDeviceListChanged s = s" by (simp add: onAudioDeviceListChanged_def)
next
  fix e
  assume n: "m_engine s = None"
  have slot: "\<And>ys. Inr (onAudioDeviceListChanged (s\<lparr>trace := ys\<rparr>)) =
      (Inr (s\<lparr>trace := ys @ []\<rparr>) :: error + app)"
    using n by (simp add: onAudioDeviceListChanged_def)
  from deliver_trace [of "\<lambda>t. Inr (onAudioDeviceListChanged t)" s "[]", OF slot]
  show "handle cfg (sinkListChanged e) s = Inr s" by simp
qed

theorem sinkListChanged_rebuilds_device_list_witness:
  "reachable cfg0 running \<and> m_engine running = Some 0 \<and>
   handle cfg0 (sinkListChanged 0) running =
     Inr (running\<lparr>trace := trace running @ [DialogPrefs_setDeviceList [''Speakers'', ''Headphones'']]\<rparr>) \<and>
   reachable cfg0 unplugged \<and> m_engine unplugged = None \<and>
   handle cfg0 (sinkListChanged 0) unplugged = Inr unplugged"
  using sinkListChanged_rebuilds_device_list [OF reachable_running]
    sinkListChanged_rebuilds_device_list [OF reachable_unplugged]
    reachable_running reachable_unplugged
  by (simp add: running_def unplugged_def speakers_def headphones_def)

text \<open>
  C5. In every state the program reaches, a \<^verbatim>\<open>volumeChanged\<close> or
  \<^verbatim>\<open>muteChanged\<close> of the channel held is connected at least once, and each of its
  connections passes the value of the signal to the popup menu
  (\<^verbatim>\<open>setVolume\<close> or \<^verbatim>\<open>setMute\<close>) and then sets the tray icon from the channel.
  Nothing else changes.
\<close>

theorem channel_signals_update_menu_and_icon:
  assumes "reachable cfg s" "m_channel s = Some d"
  shows "0 < count_list (connections s) (Device_volumeChanged d) \<and>
         handle cfg (volumeChanged d v) s =
           Inr (s\<lparr>trace := trace s @
                  concat (replicate (count_list (connections s) (Device_volumeChanged d))
                    [MenuVolume_setVolume v, TrayIcon_setIcon (iconName (devices s ! d))])\<rparr>) \<and>
         0 < count_list (connections s) (Device_muteChanged d) \<and>
         handle cfg (muteChanged d b) s =
           Inr (s\<lparr>trace := trace s @
                  concat (replicate (count_list (connections s) (Device_muteChanged d))
                    [MenuVolume_setMute b, TrayIcon_setIcon (iconName (devices s ! d))])\<rparr>)"
proof -
  from assms(1) have "wired s" by (rule reachable_wired)
  with assms(2) have "Device_volumeChanged d \<in> set (connections s)"
    "Device_muteChanged d \<in> set (connections s)"
    by (simp_all add: wired_def)
  then have "0 < count_list (connections s) (Device_volumeChanged d)"
    "0 < count_list (connections s) (Device_muteChanged d)"
    by (simp_all add: count_list_0_iff zero_less_iff_neq_zero)
  moreover have "handle cfg (volumeChanged d v) s =
           Inr (s\<lparr>trace := trace s @
                  concat (replicate (count_list (connections s) (Device_volumeChanged d))
                    [MenuVolume_setVolume v, TrayIcon_setIcon (iconName (devices s ! d))])\<rparr>)"
    using deliver_trace [of "volumeChanged_lambda v" s, OF volumeChanged_lambda_trace [OF assms(2)]]
    by simp
  moreover have "handle cfg (muteChanged d b) s =
           Inr (s\<lparr>trace := trace s @
                  concat (replicate (count_list (connections s) (Device_muteChanged d))
                    [MenuVolume_setMute b, TrayIcon_setIcon (iconName (devices s ! d))])\<rparr>)"
    using deliver_trace [of "muteChanged_lambda b" s, OF muteChanged_lambda_trace [OF assms(2)]]
    by simp
  ultimately show ?thesis by simp
qed

theorem channel_signals_update_menu_and_icon_witness:
  "reachable cfg0 running \<and> m_channel running = Some 1 \<and>
   handle cfg0 (volumeChanged 1 20) running =
     Inr (running\<lparr>trace := trace running @
            [MenuVolume_setVolume 20, TrayIcon_setIcon ''audio-volume-low'']\<rparr>) \<and>
   handle cfg0 (muteChanged 1 False) running =
     Inr (running\<lparr>trace := trace running @
            [MenuVolume_setMute False, TrayIcon_setIcon ''audio-volume-low'']\<rparr>)"
proof -
  have ch: "m_channel running = Some 1" by (simp add: running_def)
  have n: "count_list (connections running) (Device_volumeChanged 1) = Suc 0"
    "count_list (connections running) (Device_muteChanged 1) = Suc 0"
    by (simp_all add: running_def)
  have i: "iconName (devices running ! 1) = ''audio-volume-low''"
    by (simp add: running_def headphones_def iconName_def)
  from channel_signals_update_menu_and_icon [OF reachable_running ch, of 20 False]
    reachable_running ch
  show ?thesis unfolding n i by simp
qed

text \<open>
  C6. On \<^verbatim>\<open>aboutToQuit\<close> the controller makes four calls in this order: the
  preferences dialog saves its settings, the autostart flag is set to the checked state
  of the autostart action, the autostart file is created when the flag is set and
  deleted when it is not, and the settings are saved. The settings saved are what the
  dialog wrote, with that flag. No call on a device is made, and the devices have no
  part in the outcome: with other devices the outcome is the same but for the devices.
\<close>

theorem onAboutToQuit_persists_preferences:
  "handle cfg aboutToQuit s =
     Inr (s\<lparr>m_settings := (saveSettings cfg (m_settings s))\<lparr>useAutostart := actAutoStart_checked s\<rparr>,
            trace := trace s @
              [DialogPrefs_saveSettings,
               Settings_setUseAutostart (actAutoStart_checked s),
               if actAutoStart_checked s then createAutostartFile else deleteAutostartFile,
               Settings_save ((saveSettings cfg (m_settings s))\<lparr>useAutostart := actAutoStart_checked s\<rparr>)]\<rparr>) \<and>
   onAboutToQuit cfg (s\<lparr>devices := ds\<rparr>) = (onAboutToQuit cfg s)\<lparr>devices := ds\<rparr>"
  by (simp add: onAboutToQuit_def perform_def Let_def)

theorem onAboutToQuit_persists_preferences_witness:
  "handle cfg0 aboutToQuit running =
     Inr (running\<lparr>trace := trace running @
            [DialogPrefs_saveSettings, Settings_setUseAutostart True, createAutostartFile,
             Settings_save loaded0]\<rparr>) \<and>
   handle cfg0 aboutToQuit (running\<lparr>actAutoStart_checked := False\<rparr>) =
     Inr (running\<lparr>actAutoStart_checked := False,
            m_settings := loaded0\<lparr>useAutostart := False\<rparr>,
            trace := trace running @
              [DialogPrefs_saveSettings, Settings_setUseAutostart False, deleteAutostartFile,
               Settings_save (loaded0\<lparr>useAutostart := False\<rparr>)]\<rparr>)"
  using onAboutToQuit_persists_preferences [of cfg0 running "devices running"]
    onAboutToQuit_persists_preferences
      [of cfg0 "running\<lparr>actAutoStart_checked := False\<rparr>" "devices running"]
  by (simp add: run_defs)

text \<open>
  C7. A request for the id of the engine already held changes nothing: the state after
  \<^verbatim>\<open>onAudioEngineChanged\<close> is the state before it, pointers, connections and
  calls included.
\<close>

theorem same_engine_id_changes_nothing:
  "m_engine s = Some e \<Longrightarrow> engine_id (engines s ! e) = i \<Longrightarrow>
   handle cfg (sigEngineChanged i found) s = Inr s"
  by (simp add: onAudioEngineChanged_def)

theorem same_engine_id_changes_nothing_witness:
  "m_engine running = Some 0 \<and> engine_id (engines running ! 0) = 0 \<and>
   handle cfg0 (sigEngineChanged 0 [speakers]) running = Inr running"
proof -
  have a: "m_engine running = Some 0" and b: "engine_id (engines running ! 0) = 0"
    by (simp_all add: running_def)
  from same_engine_id_changes_nothing [OF a b] a b show ?thesis by simp
qed

text \<open>
  C8. With a channel held, \<^verbatim>\<open>updateTrayIcon\<close> sets one icon and changes nothing
  else, and the name of the icon is fixed by the volume and the mute state of the
  channel: muted when the volume is at most 0 or the channel is muted; otherwise low up
  to 33, medium up to 66 and high above.
\<close>

theorem updateTrayIcon_thresholds:
  assumes "m_channel s = Some d"
  shows "\<exists>icon. updateTrayIcon s = Inr (s\<lparr>trace := trace s @ [TrayIcon_setIcon icon]\<rparr>) \<and>
     (volume (devices s ! d) \<le> 0 \<or> mute (devices s ! d) \<longrightarrow> icon = ''audio-volume-muted'') \<and>
     (0 < volume (devices s ! d) \<and> \<not> mute (devices s ! d) \<and> volume (devices s ! d) \<le> 33
        \<longrightarrow> icon = ''audio-volume-low'') \<and>
     (33 < volume (devices s ! d) \<and> \<not> mute (devices s ! d) \<and> volume (devices s ! d) \<le> 66
        \<longrightarrow> icon = ''audio-volume-medium'') \<and>
     (66 < volume (devices s ! d) \<and> \<not> mute (devices s ! d) \<longrightarrow> icon = ''audio-volume-high'')"
  using assms by (simp add: updateTrayIcon_def perform_def iconName_def)

theorem updateTrayIcon_thresholds_witness:
  "m_channel running = Some 1 \<and>
   updateTrayIcon running = Inr (running\<lparr>trace := trace running @ [TrayIcon_setIcon ''audio-volume-low'']\<rparr>)"
proof -
  have ch: "m_channel running = Some 1" by (simp add: running_def)
  have v: "volume (devices running ! 1) = 20" "\<not> mute (devices running ! 1)"
    by (simp_all add: running_def headphones_def)
  from updateTrayIcon_thresholds [OF ch] obtain icon where
    "updateTrayIcon running = Inr (running\<lparr>trace := trace running @ [TrayIcon_setIcon icon]\<rparr>)"
    "0 < volume (devices running ! 1) \<and> \<not> mute (devices running ! 1) \<and> volume (devices running ! 1) \<le> 33
        \<longrightarrow> icon = ''audio-volume-low''"
    by blast
  with ch v show ?thesis by simp
qed

text \<open>
  C9. The claim: with no engine held or an empty sink list a device change leaves the
  channel and the connections alone; otherwise a negative id counts as 0 and the sink at
  that index becomes the channel. The code tests the list for emptiness and the id for
  being negative, and passes any other id to \<^verbatim>\<open>QList::at\<close>. With the two sinks
  of \<open>running\<close>, the id 2 is past the end of the list: no sink becomes the channel.
\<close>

theorem onAudioDeviceChanged_index_past_the_end:
  "handle cfg0 (sigChannelChanged 2) running = Inl IndexOutOfRange"
  by (simp add: onAudioDeviceChanged_def running_def)

text \<open>
  What holds of \<^verbatim>\<open>onAudioDeviceChanged\<close>: nothing changes with no engine held or
  with an empty sink list; an id below the length of the list, a negative one counting
  as 0, makes the sink at that index the channel and connects its two signals.
\<close>

theorem onAudioDeviceChanged_selects_sink:
  "(m_engine s = None \<longrightarrow> onAudioDeviceChanged i s = Inr s) \<and>
   (\<forall>e. m_engine s = Some e \<and> sinks (engines s ! e) = [] \<longrightarrow> onAudioDeviceChanged i s = Inr s) \<and>
   (\<forall>e. m_engine s = Some e \<and> max 0 i < int (length (sinks (engines s ! e))) \<longrightarrow>
      onAudioDeviceChanged i s =
        Inr (s\<lparr>m_channel := Some (sinks (engines s ! e) ! nat (max 0 i)),
               connections := connections s @
                 [Device_muteChanged (sinks (engines s ! e) ! nat (max 0 i)),
                  Device_volumeChanged (sinks (engines s ! e) ! nat (max 0 i))],
               trace := trace s @
                 [Connect (Device_muteChanged (sinks (engines s ! e) ! nat (max 0 i))),
                  Connect (Device_volumeChanged (sinks (engines s ! e) ! nat (max 0 i)))]\<rparr>))"
  by (auto simp add: onAudioDeviceChanged_def connect_def perform_def Let_def max_def)

theorem onAudioDeviceChanged_selects_sink_witness:
  "onAudioDeviceChanged (- 3) unplugged = Inr unplugged \<and>
   onAudioDeviceChanged (- 3) running =
     Inr (running\<lparr>m_channel := Some 0,
            connections := connections running @ [Device_muteChanged 0, Device_volumeChanged 0],
            trace := trace running @
              [Connect (Device_muteChanged 0), Connect (Device_volumeChanged 0)]\<rparr>)"
  using onAudioDeviceChanged_selects_sink [of unplugged "- 3"]
    onAudioDeviceChanged_selects_sink [of running "- 3"]
  by (simp add: running_def unplugged_def)

text \<open>
  C10. The claim: \<^verbatim>\<open>updateTrayIcon\<close> never runs with a null channel, also on the
  way through \<^verbatim>\<open>initUi\<close>. \<^verbatim>\<open>initUi\<close> calls it without a test, one line
  before it tests the channel for null. When the engine made at startup finds no sink,
  and when the stored engine id is one that no \<^verbatim>\<open>case\<close> handles, the channel is
  still null at that call.
\<close>

theorem initUi_updateTrayIcon_null_channel:
  "Application cfg0 [] loaded0 = Inl NullDeref \<and>
   Application cfg0 [speakers, headphones] (loaded0\<lparr>engineId := 7\<rparr>) = Inl NullDeref"
  by (simp add: controller_defs run_defs Let_def)

end
